theory Spec2Isabelle
  imports Complex_Main
begin

section \<open>Python values, exceptions and the labelled dataset\<close>

text \<open>
  An exception carries its class, its message and the exception it was raised
  \<^verbatim>\<open>from\<close> (its cause). A message that formats a Python \<^verbatim>\<open>set\<close> into an
  f-string, as \<^verbatim>\<open>f"Missing required dimensions: {missing_dims}"\<close> does, is kept as the
  literal prefix and the set itself: the order in which Python prints the members of a
  set of strings is not fixed.
\<close>

datatype exn_kind =
    ValueError | AttributeError | KeyError | TypeError | StopIteration | UnboundLocalError

datatype message = Text string | TextSet string "string set"

datatype exn = Exn exn_kind message "exn option"

fun exn_message :: "exn \<Rightarrow> message" where
  "exn_message (Exn k m c) = m"

text \<open>The names a message lists, when it formats a set of names.\<close>

fun listed_names :: "message \<Rightarrow> string set option" where
  "listed_names (Text t) = None"
| "listed_names (TextSet p S) = Some S"

text \<open>Attribute values, positional and keyword arguments, and log entries.\<close>

datatype pyval =
    PNone | PBool bool | PInt int | PFloat real | PStr string
  | PList "pyval list" | PDict "(string \<times> pyval) list"

text \<open>
  A numeric array: its shape and the value at each index vector; \<open>None\<close> is the
  missing-value marker (NaN).
\<close>

record ndarray =
  shape :: "nat list"
  item :: "nat list \<Rightarrow> real option"

text \<open>
  The \<^verbatim>\<open>xarray.Dataset\<close> the accessor wraps: its dimensions with their lengths, its
  data variables, its coordinate labels and its metadata attributes, each an ordered
  mapping.
\<close>

record dataset =
  dims :: "(string \<times> nat) list"
  data_vars :: "(string \<times> ndarray) list"
  coords :: "(string \<times> pyval list) list"
  attrs :: "(string \<times> pyval) list"

text \<open>
  What a call through the accessor can change: the dataset \<^verbatim>\<open>self._obj\<close> and the
  records written through \<^verbatim>\<open>logger.error\<close>.
\<close>

record move_state =
  obj :: dataset
  logged :: "string list"

section \<open>\<^verbatim>\<open>movement/move_accessor.py\<close>\<close>

definition dim_names :: "string list" where
  "dim_names = [''time'', ''individuals'', ''keypoints'', ''space'']"

definition var_names :: "string list" where
  "var_names = [''position'', ''confidence'']"

text \<open>\<^verbatim>\<open>d.get(key, None)\<close> on a dictionary.\<close>

definition dict_get :: "(string \<times> pyval) list \<Rightarrow> string \<Rightarrow> pyval" where
  "dict_get d k = (case map_of d k of None \<Rightarrow> PNone | Some v \<Rightarrow> v)"

text \<open>
  \<^verbatim>\<open>m[key]\<close> on a mapping: a name that is not there raises \<^verbatim>\<open>KeyError\<close>. The
  coordinates of a dataset are the labels the array library resolves for a name, the
  default index of a dimension without labels included; whatever a lookup raises inside
  \<^verbatim>\<open>validate\<close> is caught there.
\<close>

definition getitem :: "(string \<times> 'a) list \<Rightarrow> string \<Rightarrow> exn + 'a" where
  "getitem m k = (case map_of m k of None \<Rightarrow> Inl (Exn KeyError (Text k) None) | Some v \<Rightarrow> Inr v)"

text \<open>
  \<^verbatim>\<open>ValidPosesDataset(position_array=..., confidence_array=..., individual_names=...,
  keypoint_names=..., fps=..., source_software=...)\<close>: the constructor either raises or
  returns an object that \<^verbatim>\<open>validate\<close> discards. \<open>Some e\<close> is the exception raised.
\<close>

type_synonym poses_validator =
  "ndarray \<Rightarrow> ndarray \<Rightarrow> pyval list \<Rightarrow> pyval list \<Rightarrow> pyval \<Rightarrow> pyval \<Rightarrow> exn option"

definition missing_dims :: "dataset \<Rightarrow> string set" where
  "missing_dims ds = set dim_names - set (map fst (dims ds))"

definition missing_vars :: "dataset \<Rightarrow> string set" where
  "missing_vars ds = set var_names - set (map fst (data_vars ds))"

text \<open>The body of the \<^verbatim>\<open>try\<close> block of \<^verbatim>\<open>validate\<close>.\<close>

definition validate_try :: "poses_validator \<Rightarrow> dataset \<Rightarrow> pyval \<Rightarrow> pyval \<Rightarrow> exn + unit" where
  "validate_try V ds fps source_software =
     (if missing_dims ds \<noteq> {} then
        Inl (Exn ValueError (TextSet ''Missing required dimensions: '' (missing_dims ds)) None)
      else if missing_vars ds \<noteq> {} then
        Inl (Exn ValueError (TextSet ''Missing required data variables: '' (missing_vars ds)) None)
      else
        (case getitem (data_vars ds) (var_names ! 0) of
           Inl e \<Rightarrow> Inl e
         | Inr position_array \<Rightarrow>
        (case getitem (data_vars ds) (var_names ! 1) of
           Inl e \<Rightarrow> Inl e
         | Inr confidence_array \<Rightarrow>
        (case getitem (coords ds) (dim_names ! 1) of
           Inl e \<Rightarrow> Inl e
         | Inr individual_names \<Rightarrow>
        (case getitem (coords ds) (dim_names ! 2) of
           Inl e \<Rightarrow> Inl e
         | Inr keypoint_names \<Rightarrow>
        (case V position_array confidence_array individual_names keypoint_names
                fps source_software of
           Some e \<Rightarrow> Inl e
         | None \<Rightarrow> Inr ()))))))"

definition error_msg :: string where
  "error_msg = ''The dataset does not contain valid poses.''"

definition validate :: "poses_validator \<Rightarrow> move_state \<Rightarrow> (exn + unit) \<times> move_state" where
  "validate V s =
     (let fps = dict_get (attrs (obj s)) ''fps'';
          source_software = dict_get (attrs (obj s)) ''source_software''
      in case validate_try V (obj s) fps source_software of
           Inr u \<Rightarrow> (Inr (), s)
         | Inl e \<Rightarrow>
             (Inl (Exn ValueError (Text error_msg) (Some e)),
              s\<lparr>logged := logged s @ [error_msg]\<rparr>))"

text \<open>\<^verbatim>\<open>name.startswith(prefix)\<close>.\<close>

definition startswith :: "string \<Rightarrow> string \<Rightarrow> bool" where
  "startswith name p = (take (length p) name = p)"

text \<open>
  The \<^verbatim>\<open>kinematics\<close> module as the accessor sees it: the attributes the module defines,
  each called with the position array, the positional and the keyword arguments.
\<close>

type_synonym kinematic_fn =
  "ndarray \<Rightarrow> pyval list \<Rightarrow> (string \<times> pyval) list \<Rightarrow> exn + ndarray"

type_synonym kinematics_module = "(string \<times> kinematic_fn) list"

definition hasattr :: "kinematics_module \<Rightarrow> string \<Rightarrow> bool" where
  "hasattr kinematics name = (map_of kinematics name \<noteq> None)"

definition no_attribute :: "string \<Rightarrow> string \<Rightarrow> exn" where
  "no_attribute cls name =
     Exn AttributeError
       (Text ([CHR 0x27] @ cls @ [CHR 0x27] @ '' object has no attribute '' @
              [CHR 0x27] @ name @ [CHR 0x27])) None"

text \<open>
  The closure \<^verbatim>\<open>method\<close> that \<^verbatim>\<open>__getattr__\<close> builds for \<^verbatim>\<open>name\<close> (here
  \<open>getattr_method\<close>), called with
  \<^verbatim>\<open>*args\<close> and \<^verbatim>\<open>**kwargs\<close>.
\<close>

definition getattr_method ::
  "poses_validator \<Rightarrow> kinematics_module \<Rightarrow> string \<Rightarrow> pyval list \<Rightarrow> (string \<times> pyval) list \<Rightarrow>
   move_state \<Rightarrow> (exn + ndarray) \<times> move_state" where
  "getattr_method V kinematics name args kwargs s =
     (if startswith name ''compute_'' \<and> hasattr kinematics name then
        (case validate V s of
           (Inl e, s') \<Rightarrow> (Inl e, s')
         | (Inr u, s') \<Rightarrow>
             (case map_of kinematics name of
                None \<Rightarrow> (Inl (no_attribute ''module'' name), s')
              | Some f \<Rightarrow>
                  (case map_of (data_vars (obj s')) ''position'' of
                     None \<Rightarrow> (Inl (no_attribute ''Dataset'' ''position''), s')
                   | Some position \<Rightarrow> (f position args kwargs, s'))))
      else (Inl (no_attribute ''MoveAccessor'' name), s))"

text \<open>
  \<^verbatim>\<open>MoveAccessor.__getattr__\<close>: the fallback attribute lookup. Its body defines the
  closure and returns it; it has no \<^verbatim>\<open>raise\<close> of its own.
\<close>

type_synonym bound_method =
  "pyval list \<Rightarrow> (string \<times> pyval) list \<Rightarrow> move_state \<Rightarrow> (exn + ndarray) \<times> move_state"

definition MoveAccessor_getattr ::
  "poses_validator \<Rightarrow> kinematics_module \<Rightarrow> string \<Rightarrow> exn + bound_method" where
  "MoveAccessor_getattr V kinematics name = Inr (getattr_method V kinematics name)"

section \<open>\<^verbatim>\<open>movement/sample_data.py\<close>\<close>

text \<open>
  What the module reaches outside itself: the metadata list read from the YAML file, the
  download manager's \<^verbatim>\<open>POSE_DATA.fetch\<close>, and the three loaders of
  \<^verbatim>\<open>movement.io.load_poses\<close>. A path is the string of its file name.
\<close>

record sample_env =
  METADATA :: "(string \<times> pyval) list list"
  POSE_DATA_fetch :: "string \<Rightarrow> exn + string"
  from_sleap_file :: "string \<Rightarrow> exn + dataset"
  from_dlc_file :: "string \<Rightarrow> exn + dataset"
  from_lp_file :: "string \<Rightarrow> exn + dataset"

definition fetch_sample_data_path :: "sample_env \<Rightarrow> string \<Rightarrow> exn + string" where
  "fetch_sample_data_path env filename = POSE_DATA_fetch env filename"

text \<open>
  \<^verbatim>\<open>next(file for file in METADATA if file["file_name"] == filename)\<close>: the first entry
  that matches; an exhausted generator raises \<^verbatim>\<open>StopIteration\<close>.
\<close>

fun next_file :: "(string \<times> pyval) list list \<Rightarrow> string \<Rightarrow> exn + (string \<times> pyval) list" where
  "next_file [] filename = Inl (Exn StopIteration (Text []) None)"
| "next_file (file # rest) filename =
     (case getitem file ''file_name'' of
        Inl e \<Rightarrow> Inl e
      | Inr v \<Rightarrow> if v = PStr filename then Inr file else next_file rest filename)"

text \<open>
  \<^verbatim>\<open>return ds\<close>: the local \<^verbatim>\<open>ds\<close> is bound only when a branch assigned it. The
  message keeps the variable's name; its wording depends on the interpreter's version.
\<close>

definition return_ds :: "dataset option \<Rightarrow> exn + dataset" where
  "return_ds ds = (case ds of None \<Rightarrow> Inl (Exn UnboundLocalError (Text ''ds'') None) | Some d \<Rightarrow> Inr d)"

definition fetch_sample_data :: "sample_env \<Rightarrow> string \<Rightarrow> exn + dataset" where
  "fetch_sample_data env filename =
     (case fetch_sample_data_path env filename of
        Inl e \<Rightarrow> Inl e
      | Inr file_path \<Rightarrow>
     (case next_file (METADATA env) filename of
        Inl e \<Rightarrow> Inl e
      | Inr file_metadata \<Rightarrow>
     (case getitem file_metadata ''source_software'' of
        Inl e \<Rightarrow> Inl e
      | Inr source_software \<Rightarrow>
          if source_software = PStr ''SLEAP'' then
            (case from_sleap_file env file_path of
               Inl e \<Rightarrow> Inl e | Inr ds \<Rightarrow> return_ds (Some ds))
          else if source_software = PStr ''DeepLabCut'' then
            (case from_dlc_file env file_path of
               Inl e \<Rightarrow> Inl e | Inr ds \<Rightarrow> return_ds (Some ds))
          else if source_software = PStr ''LightningPose'' then
            (case from_lp_file env file_path of
               Inl e \<Rightarrow> Inl e | Inr ds \<Rightarrow> return_ds (Some ds))
          else return_ds None)))"

section \<open>The schema validator\<close>

text \<open>
  Modelled from the spec: \<^verbatim>\<open>movement.io.validators.ValidPosesDataset\<close> is imported by
  the accessor and is not among the sources. Section 4.1 of the specification gives its
  contract, checked here in the order the specification lists it: the position array
  has exactly 4 axes and the confidence array exactly 3 that match its leading three;
  the label counts match the axis lengths and the labels are unique; the frame rate, if
  present, is a positive number; the source software, if present, is one of a
  recognised set. The recognised set is a parameter. \<open>Some e\<close> is the first violated
  constraint.
\<close>

definition positive_number :: "pyval \<Rightarrow> bool" where
  "positive_number v = (case v of PInt n \<Rightarrow> 0 < n | PFloat x \<Rightarrow> 0 < x | _ \<Rightarrow> False)"

definition ValidPosesDataset :: "string list \<Rightarrow> poses_validator" where
  "ValidPosesDataset recognised position_array confidence_array individual_names
     keypoint_names fps source_software =
     (if length (shape position_array) \<noteq> 4 then
        Some (Exn ValueError (Text ''position_array must have 4 dimensions'') None)
      else if shape confidence_array \<noteq> butlast (shape position_array) then
        Some (Exn ValueError (Text ''confidence_array shape does not match position_array'') None)
      else if \<not> (length individual_names = shape position_array ! 1
                  \<and> distinct individual_names) then
        Some (Exn ValueError (Text ''individual_names do not match the individuals axis'') None)
      else if \<not> (length keypoint_names = shape position_array ! 2
                  \<and> distinct keypoint_names) then
        Some (Exn ValueError (Text ''keypoint_names do not match the keypoints axis'') None)
      else if fps \<noteq> PNone \<and> \<not> positive_number fps then
        Some (Exn ValueError (Text ''fps must be a positive number'') None)
      else if source_software \<noteq> PNone \<and> source_software \<notin> PStr ` set recognised then
        Some (Exn ValueError (Text ''source_software is not recognised'') None)
      else None)"

section \<open>Filtering, interpolation and the operation log\<close>

text \<open>
  The length of the time axis, the leading axis of the position and confidence arrays.
\<close>

definition n_time :: "ndarray \<Rightarrow> nat" where
  "n_time a = (case shape a of [] \<Rightarrow> 0 | T # rest \<Rightarrow> T)"

text \<open>
  The values of one individual, keypoint and space component along the time axis, and
  the confidence of one individual and keypoint along the time axis.
\<close>

definition time_column :: "ndarray \<Rightarrow> nat \<Rightarrow> nat \<Rightarrow> nat \<Rightarrow> real option list" where
  "time_column a i k s = map (\<lambda>t. item a [t, i, k, s]) [0..<n_time a]"

definition confidence_column :: "ndarray \<Rightarrow> nat \<Rightarrow> nat \<Rightarrow> real option list" where
  "confidence_column c i k = map (\<lambda>t. item c [t, i, k]) [0..<n_time c]"

definition count_nans :: "real option list \<Rightarrow> nat" where
  "count_nans xs = length (filter (\<lambda>x. x = None) xs)"

text \<open>A comparison with a missing confidence is false, as a comparison with NaN is.\<close>

definition below_threshold :: "real \<Rightarrow> real option \<Rightarrow> bool" where
  "below_threshold threshold c = (case c of None \<Rightarrow> False | Some x \<Rightarrow> x < threshold)"

text \<open>
  Modelled from the spec: \<^verbatim>\<open>movement.filtering.filter_by_confidence\<close> is not among the
  sources (only its test is). Section 4.3: given a confidence threshold, for every
  (time, individual, keypoint) triple where confidence is below threshold, replace the
  corresponding position value(s) with a missing-value marker across the space axis.
  The function takes the dataset's position and confidence arrays and returns the
  filtered position array.
\<close>

definition triples :: "ndarray \<Rightarrow> (nat \<times> nat \<times> nat) list" where
  "triples confidence =
     (case shape confidence of
        [T, I, K] \<Rightarrow> concat (map (\<lambda>t. concat (map (\<lambda>i. map (\<lambda>k. (t, i, k)) [0..<K]) [0..<I])) [0..<T])
      | _ \<Rightarrow> [])"

definition mask_triple :: "ndarray \<Rightarrow> nat \<times> nat \<times> nat \<Rightarrow> ndarray" where
  "mask_triple position tik =
     position\<lparr>item := (\<lambda>idx. if length idx = 4 \<and> (idx ! 0, idx ! 1, idx ! 2) = tik
                              then None else item position idx)\<rparr>"

definition filter_by_confidence :: "real \<Rightarrow> ndarray \<Rightarrow> ndarray \<Rightarrow> ndarray" where
  "filter_by_confidence threshold position confidence =
     foldl mask_triple position
       (filter (\<lambda>(t, i, k). below_threshold threshold (item confidence [t, i, k]))
          (triples confidence))"

text \<open>
  The number of frames at which the confidence of one individual and keypoint is below
  the threshold.
\<close>

definition count_below :: "real \<Rightarrow> ndarray \<Rightarrow> nat \<Rightarrow> nat \<Rightarrow> nat" where
  "count_below threshold confidence i k =
     length (filter (below_threshold threshold) (confidence_column confidence i k))"

text \<open>
  For one keypoint and space component, the number of (time, individual) pairs at which
  a position array holds the marker, and for one keypoint the number of (time,
  individual) pairs at which the confidence is below the threshold.
\<close>

definition markers_of_keypoint :: "ndarray \<Rightarrow> nat \<Rightarrow> nat \<Rightarrow> nat" where
  "markers_of_keypoint position k s =
     (case shape position of
        [T, I, K, S] \<Rightarrow>
          length (filter (\<lambda>(t, i). item position [t, i, k, s] = None) (List.product [0..<T] [0..<I]))
      | _ \<Rightarrow> 0)"

definition below_of_keypoint :: "real \<Rightarrow> ndarray \<Rightarrow> nat \<Rightarrow> nat" where
  "below_of_keypoint threshold confidence k =
     (case shape confidence of
        [T, I, K] \<Rightarrow>
          length (filter (\<lambda>(t, i). below_threshold threshold (item confidence [t, i, k]))
                    (List.product [0..<T] [0..<I]))
      | _ \<Rightarrow> 0)"

text \<open>
  Modelled from the spec: \<^verbatim>\<open>movement.filtering.interpolate_over_time\<close> is not among the
  sources (only its test is). Section 4.3: fills missing-value gaps along the time axis
  per (individual, keypoint, space-component) independently, using a specified
  interpolation policy (e.g., linear); gaps longer than a configurable limit are left
  unfilled. A policy gives the value at place \<open>j\<close> of a gap of length \<open>n\<close> between
  the present values \<open>l\<close> and \<open>r\<close> around it; a run of markers at either end of the
  series has only one neighbour and is left as it is.
\<close>

type_synonym policy = "real \<Rightarrow> real \<Rightarrow> nat \<Rightarrow> nat \<Rightarrow> real"

definition linear :: policy where
  "linear l r n j = l + (r - l) * real (Suc j) / real (Suc n)"

definition within_limit :: "nat option \<Rightarrow> nat \<Rightarrow> bool" where
  "within_limit max_gap n = (case max_gap of None \<Rightarrow> True | Some m \<Rightarrow> n \<le> m)"

fun fill_gap :: "policy \<Rightarrow> nat option \<Rightarrow> real option \<Rightarrow> real \<Rightarrow> nat \<Rightarrow> real option list" where
  "fill_gap pol max_gap None r n = replicate n None"
| "fill_gap pol max_gap (Some l) r n =
     (if within_limit max_gap n then map (\<lambda>j. Some (pol l r n j)) [0..<n]
      else replicate n None)"

text \<open>
  One pass along the series: \<open>prev\<close> is the last present value seen, \<open>n\<close> the number
  of markers since.
\<close>

fun interpolate_run ::
  "policy \<Rightarrow> nat option \<Rightarrow> real option \<Rightarrow> nat \<Rightarrow> real option list \<Rightarrow> real option list" where
  "interpolate_run pol max_gap prev n [] = replicate n None"
| "interpolate_run pol max_gap prev n (None # xs) = interpolate_run pol max_gap prev (Suc n) xs"
| "interpolate_run pol max_gap prev n (Some r # xs) =
     fill_gap pol max_gap prev r n @ Some r # interpolate_run pol max_gap (Some r) 0 xs"

definition interpolate_series :: "policy \<Rightarrow> nat option \<Rightarrow> real option list \<Rightarrow> real option list" where
  "interpolate_series pol max_gap xs = interpolate_run pol max_gap None 0 xs"

definition interpolate_over_time :: "policy \<Rightarrow> nat option \<Rightarrow> ndarray \<Rightarrow> ndarray" where
  "interpolate_over_time pol max_gap position =
     position\<lparr>item := (\<lambda>idx. if length idx = 4 \<and> idx ! 0 < n_time position
                              then interpolate_series pol max_gap
                                     (time_column position (idx ! 1) (idx ! 2) (idx ! 3)) ! (idx ! 0)
                              else item position idx)\<rparr>"

text \<open>
  The gaps of a series that have a present value on both sides, by their lengths;
  \<open>seen\<close> says whether a present value came before.
\<close>

fun interior_gaps :: "bool \<Rightarrow> nat \<Rightarrow> real option list \<Rightarrow> nat list" where
  "interior_gaps seen n [] = []"
| "interior_gaps seen n (None # xs) = interior_gaps seen (Suc n) xs"
| "interior_gaps seen n (Some r # xs) =
     (if seen \<and> 0 < n then [n] else []) @ interior_gaps True 0 xs"

text \<open>The series of a position array, one per individual, keypoint and space component.\<close>

definition columns :: "ndarray \<Rightarrow> (nat \<times> nat \<times> nat) list" where
  "columns position =
     (case shape position of
        [T, I, K, S] \<Rightarrow> concat (map (\<lambda>i. concat (map (\<lambda>k. map (\<lambda>s. (i, k, s)) [0..<S]) [0..<K])) [0..<I])
      | _ \<Rightarrow> [])"

definition count_missing :: "ndarray \<Rightarrow> nat" where
  "count_missing position =
     sum_list (map (\<lambda>(i, k, s). count_nans (time_column position i k s)) (columns position))"

definition gaps_of :: "ndarray \<Rightarrow> nat list" where
  "gaps_of position =
     concat (map (\<lambda>(i, k, s). interior_gaps False 0 (time_column position i k s)) (columns position))"

text \<open>
  Modelled from the spec: \<^verbatim>\<open>movement.filtering.log_to_attrs\<close> is not among the sources
  (only its test is). Section 4.3: the decorator wraps a transformation function
  operating on a dataset; after the wrapped function returns, it appends an entry to
  the dataset's operation log recording the function name and its positional and
  keyword arguments. The test reads the log as the list \<^verbatim>\<open>ds.attrs["log"]\<close> of
  dictionaries, the name under \<^verbatim>\<open>"operation"\<close>, the first positional argument after the
  dataset under \<^verbatim>\<open>"arg_1"\<close>, a keyword argument under its own name.
\<close>

fun dict_set :: "(string \<times> 'a) list \<Rightarrow> string \<Rightarrow> 'a \<Rightarrow> (string \<times> 'a) list" where
  "dict_set [] k v = [(k, v)]"
| "dict_set ((k', v') # d) k v = (if k' = k then (k, v) # d else (k', v') # dict_set d k v)"

fun dict_update :: "(string \<times> 'a) list \<Rightarrow> (string \<times> 'a) list \<Rightarrow> (string \<times> 'a) list" where
  "dict_update d [] = d"
| "dict_update d ((k, v) # kvs) = dict_update (dict_set d k v) kvs"

fun string_of_nat :: "nat \<Rightarrow> string" where
  "string_of_nat n =
     (if n < 10 then [''0123456789'' ! n]
      else string_of_nat (n div 10) @ [''0123456789'' ! (n mod 10)])"

definition positional_entries :: "pyval list \<Rightarrow> (string \<times> pyval) list" where
  "positional_entries args =
     map (\<lambda>(i, a). (''arg_'' @ string_of_nat i, a)) (zip [1..<Suc (length args)] args)"

definition log_entry :: "string \<Rightarrow> pyval list \<Rightarrow> (string \<times> pyval) list \<Rightarrow> (string \<times> pyval) list" where
  "log_entry operation args kwargs =
     dict_update (dict_update [(''operation'', PStr operation)] (positional_entries args)) kwargs"






section \<open>Example datasets\<close>

text \<open>The message of the exception a call ended with, if it ended with one.\<close>

definition failure_message :: "exn + 'a \<Rightarrow> message option" where
  "failure_message r = (case r of Inl e \<Rightarrow> Some (exn_message e) | Inr v \<Rightarrow> None)"

definition recognised_software :: "string list" where
  "recognised_software = [''SLEAP'', ''DeepLabCut'', ''LightningPose'']"

text \<open>Two frames of one individual with one keypoint in the plane.\<close>

definition example_position :: ndarray where
  "example_position = \<lparr>shape = [2, 1, 1, 2], item = (\<lambda>idx. Some 1)\<rparr>"

definition example_confidence :: ndarray where
  "example_confidence = \<lparr>shape = [2, 1, 1], item = (\<lambda>idx. Some 1)\<rparr>"

definition example_dataset :: dataset where
  "example_dataset =
     \<lparr>dims = [(''time'', 2), (''individuals'', 1), (''keypoints'', 1), (''space'', 2)],
      data_vars = [(''position'', example_position), (''confidence'', example_confidence)],
      coords = [(''time'', [PInt 0, PInt 1]), (''individuals'', [PStr ''individual_0'']),
                (''keypoints'', [PStr ''snout'']), (''space'', [PStr ''x'', PStr ''y''])],
      attrs = [(''fps'', PInt 30), (''source_software'', PStr ''DeepLabCut'')]\<rparr>"

text \<open>The same dataset without its time dimension, and with a confidence array of the
  position array's shape.\<close>

definition no_time_dataset :: dataset where
  "no_time_dataset =
     example_dataset\<lparr>dims := [(''individuals'', 1), (''keypoints'', 1), (''space'', 2)]\<rparr>"

definition bad_shape_dataset :: dataset where
  "bad_shape_dataset =
     example_dataset\<lparr>data_vars := [(''position'', example_position), (''confidence'', example_position)]\<rparr>"

text \<open>
  A kinematics module with two functions that take no argument beyond the position
  array, the same module after \<^verbatim>\<open>compute_velocity\<close> has been replaced, a poses validator
  that rejects every dataset, and a metadata list with one DeepLabCut file and one file
  of another source.
\<close>

definition no_arguments :: "(ndarray \<Rightarrow> ndarray) \<Rightarrow> kinematic_fn" where
  "no_arguments g position args kwargs =
     (if args = [] \<and> kwargs = [] then Inr (g position)
      else Inl (Exn TypeError (Text ''unexpected argument'') None))"

definition example_kinematics :: kinematics_module where
  "example_kinematics =
     [(''compute_displacement'', no_arguments (\<lambda>p. p\<lparr>item := (\<lambda>idx. Some 0)\<rparr>)),
      (''compute_velocity'', no_arguments (\<lambda>p. p\<lparr>item := (\<lambda>idx. Some 0)\<rparr>))]"

definition changed_kinematics :: kinematics_module where
  "changed_kinematics =
     [(''compute_displacement'', no_arguments (\<lambda>p. p\<lparr>item := (\<lambda>idx. Some 0)\<rparr>)),
      (''compute_velocity'', no_arguments (\<lambda>p. \<lparr>shape = [], item = (\<lambda>idx. Some 7)\<rparr>))]"

definition rejecting_validator :: poses_validator where
  "rejecting_validator p c i k fps sw = Some (Exn ValueError (Text ''rejected'') None)"

definition example_state :: move_state where
  "example_state = \<lparr>obj = example_dataset, logged = []\<rparr>"

definition result_shape :: "exn + ndarray \<Rightarrow> exn + nat list" where
  "result_shape r = (case r of Inl e \<Rightarrow> Inl e | Inr a \<Rightarrow> Inr (shape a))"

definition example_env :: sample_env where
  "example_env =
     \<lparr>METADATA =
        [[(''file_name'', PStr ''DLC_single-mouse_EPM.predictions.h5''),
          (''sha256sum'', PStr ''01''),
          (''source_software'', PStr ''DeepLabCut'')],
         [(''file_name'', PStr ''tracks.csv''),
          (''sha256sum'', PStr ''00''),
          (''source_software'', PStr ''Anipose'')]],
      POSE_DATA_fetch = (\<lambda>filename.
         if filename = ''DLC_single-mouse_EPM.predictions.h5'' \<or> filename = ''tracks.csv''
         then Inr (''poses/'' @ filename)
         else Inl (Exn ValueError (Text ''File is not in the registry'') None)),
      from_sleap_file = (\<lambda>path. Inr example_dataset),
      from_dlc_file = (\<lambda>path. Inr example_dataset),
      from_lp_file = (\<lambda>path. Inr example_dataset)\<rparr>"

text \<open>
  Three frames of one keypoint with confidences 0.9, 0.1 and 0.5 and no missing
  position; a series of four frames whose two middle values are missing; and the mock
  transformation of \<^verbatim>\<open>test_log_to_attrs\<close>, which returns the dataset it is given.
\<close>

definition track_position :: ndarray where
  "track_position = \<lparr>shape = [3, 1, 1, 2], item = (\<lambda>idx. Some 1)\<rparr>"

definition track_confidence :: ndarray where
  "track_confidence =
     \<lparr>shape = [3, 1, 1],
      item = (\<lambda>idx. if idx = [0, 0, 0] then Some (9 / 10)
                     else if idx = [1, 0, 0] then Some (1 / 10) else Some (1 / 2))\<rparr>"

definition gap_position :: ndarray where
  "gap_position =
     \<lparr>shape = [4, 1, 1, 1],
      item = (\<lambda>idx. if idx = [0, 0, 0, 0] then Some 1
                     else if idx = [3, 0, 0, 0] then Some 4 else None)\<rparr>"


section \<open>Validation\<close>

lemma validate_obj: "obj (snd (validate V s)) = obj s"
  by (simp add: validate_def Let_def split: sum.splits)

lemma validate_ok_state: "fst (validate V s) = Inr u \<Longrightarrow> snd (validate V s) = s"
  by (auto simp add: validate_def Let_def split: sum.splits)

lemma validate_fst_cong: "obj s = obj s' \<Longrightarrow> fst (validate V s) = fst (validate V s')"
  by (simp add: validate_def Let_def split: sum.splits)


lemma example_valid:
  "validate_try (ValidPosesDataset recognised_software) example_dataset
     (PInt 30) (PStr ''DeepLabCut'') = Inr ()"
  by (simp add: validate_try_def missing_dims_def missing_vars_def dim_names_def var_names_def
      example_dataset_def getitem_def ValidPosesDataset_def example_position_def
      example_confidence_def positive_number_def recognised_software_def)

lemma bad_shape_try:
  "validate_try (ValidPosesDataset recognised_software) bad_shape_dataset
     (PInt 30) (PStr ''DeepLabCut'')
     = Inl (Exn ValueError (Text ''confidence_array shape does not match position_array'') None)"
  by (simp add: validate_try_def missing_dims_def missing_vars_def dim_names_def var_names_def
      example_dataset_def bad_shape_dataset_def getitem_def ValidPosesDataset_def
      example_position_def example_confidence_def positive_number_def recognised_software_def)

lemma no_time_missing: "missing_dims no_time_dataset = {''time''}"
  by (auto simp add: missing_dims_def dim_names_def no_time_dataset_def example_dataset_def)

text \<open>
  The \<^verbatim>\<open>try\<close> block of \<^verbatim>\<open>validate\<close> raises exactly when a required dimension or
  data variable is missing, a coordinate cannot be looked up, or the poses validator
  rejects the extracted fields.
\<close>

lemma in_keys_map_of: "k \<in> set (map fst d) \<Longrightarrow> \<exists>v. map_of d k = Some v"
  by (induction d) auto

lemma validate_try_fields:
  assumes "missing_dims ds = {}" "missing_vars ds = {}"
    and "map_of (data_vars ds) ''position'' = Some p"
    and "map_of (data_vars ds) ''confidence'' = Some c"
  shows "validate_try V ds fps sw =
           (case map_of (coords ds) ''individuals'' of
              None \<Rightarrow> Inl (Exn KeyError (Text ''individuals'') None)
            | Some i \<Rightarrow>
                (case map_of (coords ds) ''keypoints'' of
                   None \<Rightarrow> Inl (Exn KeyError (Text ''keypoints'') None)
                 | Some k \<Rightarrow> (case V p c i k fps sw of Some e \<Rightarrow> Inl e | None \<Rightarrow> Inr ())))"
  using assms
  by (cases "map_of (coords ds) ''individuals''"; cases "map_of (coords ds) ''keypoints''")
     (simp_all add: validate_try_def getitem_def var_names_def dim_names_def)

lemma validate_try_fails_iff:
  "(\<exists>cause. validate_try V ds fps sw = Inl cause) \<longleftrightarrow>
     (missing_dims ds \<noteq> {} \<or> missing_vars ds \<noteq> {}
      \<or> map_of (coords ds) ''individuals'' = None \<or> map_of (coords ds) ''keypoints'' = None
      \<or> (\<exists>p c i k. map_of (data_vars ds) ''position'' = Some p
             \<and> map_of (data_vars ds) ''confidence'' = Some c
             \<and> map_of (coords ds) ''individuals'' = Some i
             \<and> map_of (coords ds) ''keypoints'' = Some k
             \<and> V p c i k fps sw \<noteq> None))"
proof (cases "missing_dims ds \<noteq> {} \<or> missing_vars ds \<noteq> {}")
  case True
  then have "\<exists>cause. validate_try V ds fps sw = Inl cause"
    by (cases "missing_dims ds \<noteq> {}") (simp_all add: validate_try_def)
  with True show ?thesis by blast
next
  case False
  then have m: "missing_dims ds = {}" "missing_vars ds = {}" by simp_all
  have "''position'' \<in> set (map fst (data_vars ds))"
    using m(2) by (auto simp add: missing_vars_def var_names_def)
  from in_keys_map_of [OF this] obtain p where p: "map_of (data_vars ds) ''position'' = Some p" ..
  have "''confidence'' \<in> set (map fst (data_vars ds))"
    using m(2) by (auto simp add: missing_vars_def var_names_def)
  from in_keys_map_of [OF this] obtain c where c: "map_of (data_vars ds) ''confidence'' = Some c" ..
  note eq = validate_try_fields [OF m p c, of V fps sw]
  show ?thesis
  proof (cases "map_of (coords ds) ''individuals''")
    case None
    then show ?thesis using eq by simp
  next
    case (Some i)
    note i = this
    show ?thesis
    proof (cases "map_of (coords ds) ''keypoints''")
      case None
      then show ?thesis using eq i by simp
    next
      case (Some k)
      then show ?thesis using eq i m p c by (cases "V p c i k fps sw") simp_all
    qed
  qed
qed

text \<open>
  Claim C3. Whenever a check inside the \<^verbatim>\<open>try\<close> block of \<^verbatim>\<open>validate\<close> fails, with
  whatever exception \<open>cause\<close> (a missing dimension, a missing data variable, a failed
  lookup, or a shape, label-count or metadata constraint the poses validator rejects;
  \<open>validate_try_fails_iff\<close> lists the cases), \<^verbatim>\<open>validate\<close> raises one
  \<^verbatim>\<open>ValueError\<close> whose message is the fixed text "The dataset does not contain valid
  poses." and whose cause is that exception; the same text is logged once and the
  dataset is the one passed in.
\<close>

theorem validate_wraps_failure:
  assumes "validate_try V (obj s) (dict_get (attrs (obj s)) ''fps'')
             (dict_get (attrs (obj s)) ''source_software'') = Inl cause"
  shows "validate V s =
           (Inl (Exn ValueError (Text ''The dataset does not contain valid poses.'') (Some cause)),
            s\<lparr>logged := logged s @ [''The dataset does not contain valid poses.'']\<rparr>)"
  using assms by (simp add: validate_def error_msg_def)

theorem validate_wraps_failure_witness:
  "validate (ValidPosesDataset recognised_software) \<lparr>obj = bad_shape_dataset, logged = []\<rparr> =
     (Inl (Exn ValueError (Text ''The dataset does not contain valid poses.'')
        (Some (Exn ValueError (Text ''confidence_array shape does not match position_array'') None))),
      \<lparr>obj = bad_shape_dataset, logged = [''The dataset does not contain valid poses.'']\<rparr>)"
proof -
  have fps: "dict_get (attrs bad_shape_dataset) ''fps'' = PInt 30"
    by (simp add: dict_get_def bad_shape_dataset_def example_dataset_def)
  have sw: "dict_get (attrs bad_shape_dataset) ''source_software'' = PStr ''DeepLabCut''"
    by (simp add: dict_get_def bad_shape_dataset_def example_dataset_def)
  show ?thesis
    using validate_wraps_failure [of "ValidPosesDataset recognised_software"
                 "\<lparr>obj = bad_shape_dataset, logged = []\<rparr>"
                 "Exn ValueError (Text ''confidence_array shape does not match position_array'') None"]
          bad_shape_try
    by (simp add: fps sw)
qed

text \<open>
  Claim C4, as stated, fails: for the example dataset without its time dimension the
  exception \<^verbatim>\<open>validate\<close> raises carries the fixed text, which lists no name.
\<close>

theorem missing_names_message_counterexample:
  "missing_dims no_time_dataset = {''time''}
   \<and> failure_message (fst (validate (ValidPosesDataset recognised_software)
                               \<lparr>obj = no_time_dataset, logged = []\<rparr>))
       = Some (Text ''The dataset does not contain valid poses.'')
   \<and> listed_names (Text ''The dataset does not contain valid poses.'') \<noteq> Some {''time''}"
  by (simp add: no_time_missing validate_def validate_try_def failure_message_def error_msg_def)

text \<open>
  Claim C4, amended. For every dataset missing a required dimension or a required data
  variable, and for every poses validator, \<^verbatim>\<open>validate\<close> raises the wrapped
  \<^verbatim>\<open>ValueError\<close> whose cause is a \<^verbatim>\<open>ValueError\<close> listing exactly the absent dimensions
  when a dimension is absent, and otherwise exactly the absent data variables. The
  outcome depends on no variable, coordinate or attribute of the dataset and not on the
  validator: presence is checked before any field is extracted.
\<close>

theorem missing_names_in_cause:
  assumes "missing_dims (obj s) \<noteq> {} \<or> missing_vars (obj s) \<noteq> {}"
  shows "fst (validate V s) =
           Inl (Exn ValueError (Text ''The dataset does not contain valid poses.'')
             (Some (Exn ValueError
                (if missing_dims (obj s) \<noteq> {}
                 then TextSet ''Missing required dimensions: '' (missing_dims (obj s))
                 else TextSet ''Missing required data variables: '' (missing_vars (obj s)))
                None)))"
  using assms by (auto simp add: validate_def validate_try_def error_msg_def)

theorem missing_names_in_cause_witness:
  "fst (validate (ValidPosesDataset recognised_software) \<lparr>obj = no_time_dataset, logged = []\<rparr>) =
     Inl (Exn ValueError (Text ''The dataset does not contain valid poses.'')
        (Some (Exn ValueError (TextSet ''Missing required dimensions: '' {''time''}) None)))"
  using missing_names_in_cause [of "\<lparr>obj = no_time_dataset, logged = []\<rparr>"
          "ValidPosesDataset recognised_software"]
  by (simp add: no_time_missing)

lemma example_attrs:
  "dict_get (attrs example_dataset) ''fps'' = PInt 30"
  "dict_get (attrs example_dataset) ''source_software'' = PStr ''DeepLabCut''"
  by (simp_all add: dict_get_def example_dataset_def)

lemma example_validate:
  "validate (ValidPosesDataset recognised_software) example_state = (Inr (), example_state)"
  by (simp add: validate_def example_state_def example_attrs example_valid)

lemma example_position_var: "map_of (data_vars example_dataset) ''position'' = Some example_position"
  by (simp add: example_dataset_def)


section \<open>The accessor's fallback lookup\<close>

lemma method_obj: "obj (snd (getattr_method V kin name args kwargs s)) = obj s"
  using validate_obj[of V s]
  by (auto simp add: getattr_method_def split: prod.splits sum.splits option.splits)

lemma method_fst_cong:
  assumes "obj s = obj s'"
  shows "fst (getattr_method V kin name args kwargs s) = fst (getattr_method V kin name args kwargs s')"
proof -
  have a: "fst (validate V s) = fst (validate V s')" using assms by (rule validate_fst_cong)
  have b: "obj (snd (validate V s)) = obj (snd (validate V s'))" using assms by (simp add: validate_obj)
  show ?thesis
    using a b
    by (cases "validate V s"; cases "validate V s'")
       (auto simp add: getattr_method_def split: sum.splits option.splits)
qed




lemma example_velocity:
  "getattr_method (ValidPosesDataset recognised_software) example_kinematics ''compute_velocity'' [] []
     example_state = (Inr (example_position\<lparr>item := (\<lambda>idx. Some 0)\<rparr>), example_state)"
  by (simp add: getattr_method_def startswith_def hasattr_def example_kinematics_def
      example_validate no_arguments_def)
     (simp add: example_state_def example_position_var no_arguments_def)

text \<open>
  Claim C5. \<^verbatim>\<open>validate\<close> never changes the dataset: it leaves \<^verbatim>\<open>self._obj\<close> as it
  was whether it returns or raises, and when it returns (with nothing) the whole state
  is as before, the log included. A call through the fallback lookup leaves the dataset
  as it was too, so after a request that failed, a request for any property gives what
  it would have given before.
\<close>

theorem validate_leaves_dataset:
  "obj (snd (validate V s)) = obj s
   \<and> (fst (validate V s) = Inr () \<longrightarrow> snd (validate V s) = s)
   \<and> obj (snd (getattr_method V kin name args kwargs s)) = obj s
   \<and> (fst (getattr_method V kin name args kwargs s) = Inl e \<longrightarrow>
        fst (getattr_method V kin name' args' kwargs' (snd (getattr_method V kin name args kwargs s)))
        = fst (getattr_method V kin name' args' kwargs' s))"
  using validate_obj validate_ok_state method_obj method_fst_cong
  by blast

theorem validate_leaves_dataset_witness:
  "snd (validate (ValidPosesDataset recognised_software) example_state) = example_state
   \<and> fst (getattr_method (ValidPosesDataset recognised_software) example_kinematics
             ''compute_velocity'' [PInt 1] [] example_state)
       = Inl (Exn TypeError (Text ''unexpected argument'') None)
   \<and> result_shape (fst (getattr_method (ValidPosesDataset recognised_software) example_kinematics
        ''compute_displacement'' [] []
        (snd (getattr_method (ValidPosesDataset recognised_software) example_kinematics
               ''compute_velocity'' [PInt 1] [] example_state)))) = Inr [2, 1, 1, 2]"
proof -
  let ?V = "ValidPosesDataset recognised_software"
  have ok: "fst (validate ?V example_state) = Inr ()"
    by (simp add: example_validate)
  have bad: "fst (getattr_method ?V example_kinematics ''compute_velocity'' [PInt 1] [] example_state)
       = Inl (Exn TypeError (Text ''unexpected argument'') None)"
    by (simp add: getattr_method_def startswith_def hasattr_def example_kinematics_def
      example_validate no_arguments_def)
     (simp add: example_state_def example_position_var no_arguments_def)
  have good: "result_shape (fst (getattr_method ?V example_kinematics ''compute_displacement'' [] []
       example_state)) = Inr [2, 1, 1, 2]"
    by (simp add: getattr_method_def startswith_def hasattr_def example_kinematics_def
      example_validate no_arguments_def)
     (simp add: example_state_def example_position_var no_arguments_def result_shape_def example_position_def)
  show ?thesis
    using validate_leaves_dataset [of ?V example_state example_kinematics "''compute_velocity''" "[PInt 1]" "[]"
                 "Exn TypeError (Text ''unexpected argument'') None" "''compute_displacement''" "[]" "[]"]
          ok bad good
    by simp
qed




text \<open>
  Claim C1 does not hold of the code. On the valid example dataset a call of
  \<^verbatim>\<open>compute_velocity\<close> through the accessor returns an array of the position's shape
  and leaves the state as it was: the dataset still has the two data variables it had,
  and none under the property's name. A second call after the module's function has
  been replaced returns the replaced function's result, and a second call under a
  validator that rejects the dataset fails: both validation and computation run again.
\<close>

theorem compute_twice_recomputes:
  "snd (getattr_method (ValidPosesDataset recognised_software) example_kinematics
          ''compute_velocity'' [] [] example_state) = example_state
   \<and> map fst (data_vars (obj example_state)) = [''position'', ''confidence'']
   \<and> result_shape (fst (getattr_method (ValidPosesDataset recognised_software) example_kinematics
          ''compute_velocity'' [] [] example_state)) = Inr [2, 1, 1, 2]
   \<and> result_shape (fst (getattr_method (ValidPosesDataset recognised_software) changed_kinematics
          ''compute_velocity'' [] []
          (snd (getattr_method (ValidPosesDataset recognised_software) example_kinematics
                  ''compute_velocity'' [] [] example_state)))) = Inr []
   \<and> fst (getattr_method rejecting_validator example_kinematics ''compute_velocity'' [] []
          (snd (getattr_method (ValidPosesDataset recognised_software) example_kinematics
                  ''compute_velocity'' [] [] example_state)))
       = Inl (Exn ValueError (Text ''The dataset does not contain valid poses.'')
               (Some (Exn ValueError (Text ''rejected'') None)))"
proof -
  have a: "getattr_method (ValidPosesDataset recognised_software) changed_kinematics ''compute_velocity'' [] []
     example_state = (Inr \<lparr>shape = [], item = (\<lambda>idx. Some 7)\<rparr>, example_state)"
    by (simp add: getattr_method_def startswith_def hasattr_def changed_kinematics_def
      example_validate no_arguments_def)
     (simp add: example_state_def example_position_var no_arguments_def)
  have b: "fst (validate rejecting_validator example_state) =
      Inl (Exn ValueError (Text ''The dataset does not contain valid poses.'')
               (Some (Exn ValueError (Text ''rejected'') None)))"
    by (simp add: validate_def validate_try_def missing_dims_def missing_vars_def dim_names_def
        var_names_def getitem_def rejecting_validator_def example_state_def example_dataset_def
        error_msg_def)
  have c: "fst (getattr_method rejecting_validator example_kinematics ''compute_velocity'' [] []
          example_state) = Inl (Exn ValueError (Text ''The dataset does not contain valid poses.'')
               (Some (Exn ValueError (Text ''rejected'') None)))"
    using b by (cases "validate rejecting_validator example_state")
      (simp add: getattr_method_def startswith_def hasattr_def example_kinematics_def)
  show ?thesis
    by (simp add: example_velocity a c result_shape_def example_position_def)
       (simp add: example_state_def example_dataset_def)
qed

text \<open>
  Claim C2 does not hold of the code at attribute access. For the name \<^verbatim>\<open>foo\<close>, which
  the kinematics module does not define, the fallback lookup returns a callable and no
  error; \<^verbatim>\<open>AttributeError\<close> is raised when the callable is called.
\<close>

theorem unknown_name_returns_callable:
  "\<not> isl (MoveAccessor_getattr (ValidPosesDataset recognised_software) example_kinematics ''foo'')
   \<and> fst (getattr_method (ValidPosesDataset recognised_software) example_kinematics ''foo'' [] []
            example_state) = Inl (no_attribute ''MoveAccessor'' ''foo'')"
  by (simp add: MoveAccessor_getattr_def getattr_method_def startswith_def)

section \<open>Sample data\<close>

lemma next_file_found:
  "next_file mds filename = Inr md \<Longrightarrow> md \<in> set mds \<and> map_of md ''file_name'' = Some (PStr filename)"
  by (induction mds) (auto simp add: getitem_def split: sum.splits option.splits if_splits)

text \<open>
  Claim C10. \<^verbatim>\<open>fetch_sample_data\<close> returns a dataset only when the file was fetched
  and the first metadata entry with its name has \<^verbatim>\<open>source_software\<close> SLEAP, DeepLabCut
  or LightningPose. When the file was fetched and that entry has any other
  \<^verbatim>\<open>source_software\<close> value, no branch binds \<^verbatim>\<open>ds\<close> and the function ends with
  \<^verbatim>\<open>UnboundLocalError\<close>.
\<close>

theorem fetch_sample_data_sources:
  "(fetch_sample_data env filename = Inr ds \<longrightarrow>
      (\<exists>path md sw. fetch_sample_data_path env filename = Inr path
          \<and> next_file (METADATA env) filename = Inr md
          \<and> map_of md ''source_software'' = Some (PStr sw)
          \<and> sw \<in> {''SLEAP'', ''DeepLabCut'', ''LightningPose''}))
   \<and> (fetch_sample_data_path env filename = Inr path
        \<and> next_file (METADATA env) filename = Inr md
        \<and> map_of md ''source_software'' = Some v
        \<and> v \<notin> {PStr ''SLEAP'', PStr ''DeepLabCut'', PStr ''LightningPose''} \<longrightarrow>
      fetch_sample_data env filename = Inl (Exn UnboundLocalError (Text ''ds'') None))"
  by (auto simp add: fetch_sample_data_def getitem_def return_ds_def
      split: sum.splits option.splits if_splits)

theorem fetch_sample_data_sources_witness:
  "fetch_sample_data example_env ''DLC_single-mouse_EPM.predictions.h5'' = Inr example_dataset
   \<and> fetch_sample_data example_env ''tracks.csv'' = Inl (Exn UnboundLocalError (Text ''ds'') None)"
proof -
  have p: "fetch_sample_data_path example_env ''tracks.csv'' = Inr ''poses/tracks.csv''"
    by (simp add: fetch_sample_data_path_def example_env_def)
  have m: "next_file (METADATA example_env) ''tracks.csv'' =
             Inr [(''file_name'', PStr ''tracks.csv''), (''sha256sum'', PStr ''00''),
                  (''source_software'', PStr ''Anipose'')]"
    by (simp add: example_env_def getitem_def)
  have a: "fetch_sample_data example_env ''DLC_single-mouse_EPM.predictions.h5'' = Inr example_dataset"
    by (simp add: fetch_sample_data_def fetch_sample_data_path_def example_env_def getitem_def
        return_ds_def)
  show ?thesis
    using fetch_sample_data_sources [of example_env "''tracks.csv''" example_dataset "''poses/tracks.csv''"
                  "[(''file_name'', PStr ''tracks.csv''), (''sha256sum'', PStr ''00''),
                    (''source_software'', PStr ''Anipose'')]" "PStr ''Anipose''"]
          p m a
    by simp
qed


section \<open>Confidence filtering\<close>

lemma shape_foldl_mask: "shape (foldl mask_triple a ts) = shape a"
  by (induction ts arbitrary: a) (simp_all add: mask_triple_def)

lemma item_foldl_mask:
  "item (foldl mask_triple a ts) [t, i, k, s] =
     (if (t, i, k) \<in> set ts then None else item a [t, i, k, s])"
  by (induction ts arbitrary: a) (auto simp add: mask_triple_def)

lemma set_triples:
  "shape c = [T, I, K] \<Longrightarrow> set (triples c) = {(t, i, k). t < T \<and> i < I \<and> k < K}"
  by (fastforce simp add: triples_def)

lemma item_filter_by_confidence:
  assumes "shape confidence = [T, I, K]" "t < T" "i < I" "k < K"
  shows "item (filter_by_confidence threshold position confidence) [t, i, k, s] =
           (if below_threshold threshold (item confidence [t, i, k]) then None
            else item position [t, i, k, s])"
  using assms by (simp add: filter_by_confidence_def item_foldl_mask set_triples)

lemma length_filter_disj:
  "length (filter (\<lambda>x. P x \<or> Q x) xs) =
     length (filter P xs) + length (filter (\<lambda>x. Q x \<and> \<not> P x) xs)"
  by (induction xs) auto

lemma n_time_filter:
  "n_time (filter_by_confidence threshold position confidence) = n_time position"
  by (simp add: n_time_def filter_by_confidence_def shape_foldl_mask)

lemma count_nans_filtered:
  assumes "shape position = [T, I, K, S]" "shape confidence = [T, I, K]" "i < I" "k < K"
  shows "count_nans (time_column (filter_by_confidence threshold position confidence) i k s) =
           count_below threshold confidence i k
           + length (filter (\<lambda>t. item position [t, i, k, s] = None
                                 \<and> \<not> below_threshold threshold (item confidence [t, i, k])) [0..<T])"
proof -
  let ?F = "filter_by_confidence threshold position confidence"
  have "n_time position = T" "n_time confidence = T"
    using assms by (simp_all add: n_time_def)
  then have nt: "n_time ?F = T" "n_time confidence = T"
    by (simp_all only: n_time_filter)
  have "count_nans (time_column ?F i k s) = length (filter (\<lambda>t. item ?F [t, i, k, s] = None) [0..<T])"
    by (simp add: count_nans_def time_column_def nt filter_map o_def)
  also have "filter (\<lambda>t. item ?F [t, i, k, s] = None) [0..<T] =
      filter (\<lambda>t. below_threshold threshold (item confidence [t, i, k])
                   \<or> item position [t, i, k, s] = None) [0..<T]"
    using assms by (intro filter_cong) (auto simp add: item_filter_by_confidence)
  also have "length \<dots> = length (filter (\<lambda>t. below_threshold threshold (item confidence [t, i, k])) [0..<T])
       + length (filter (\<lambda>t. item position [t, i, k, s] = None
                                 \<and> \<not> below_threshold threshold (item confidence [t, i, k])) [0..<T])"
    by (rule length_filter_disj)
  also have "length (filter (\<lambda>t. below_threshold threshold (item confidence [t, i, k])) [0..<T])
      = count_below threshold confidence i k"
    by (simp add: count_below_def confidence_column_def nt filter_map o_def)
  finally show ?thesis .
qed

lemma upt3: "[0..<3] = [0, 1, 2]"
  by (simp add: upt_rec)

lemma track_below: "count_below (6 / 10) track_confidence 0 0 = 2"
  by (simp add: count_below_def confidence_column_def n_time_def track_confidence_def
      below_threshold_def upt3)

lemma shape_filter_by_confidence:
  "shape (filter_by_confidence threshold position confidence) = shape position"
  by (simp add: filter_by_confidence_def shape_foldl_mask)

lemma markers_of_keypoint_filtered:
  assumes "shape position = [T, I, K, S]" "shape confidence = [T, I, K]" "k < K"
  shows "markers_of_keypoint (filter_by_confidence threshold position confidence) k s =
           below_of_keypoint threshold confidence k
           + length (filter (\<lambda>(t, i). item position [t, i, k, s] = None
                                 \<and> \<not> below_threshold threshold (item confidence [t, i, k]))
                       (List.product [0..<T] [0..<I]))"
proof -
  let ?F = "filter_by_confidence threshold position confidence"
  let ?ps = "List.product [0..<T] [0..<I]"
  have "markers_of_keypoint ?F k s = length (filter (\<lambda>(t, i). item ?F [t, i, k, s] = None) ?ps)"
    using assms by (simp add: markers_of_keypoint_def shape_filter_by_confidence)
  also have "filter (\<lambda>(t, i). item ?F [t, i, k, s] = None) ?ps =
      filter (\<lambda>p. (case p of (t, i) \<Rightarrow> below_threshold threshold (item confidence [t, i, k]))
                   \<or> (case p of (t, i) \<Rightarrow> item position [t, i, k, s] = None)) ?ps"
    using assms
    by (intro filter_cong) (auto simp add: item_filter_by_confidence split: if_splits)
  also have "length \<dots> =
       length (filter (\<lambda>(t, i). below_threshold threshold (item confidence [t, i, k])) ?ps)
       + length (filter (\<lambda>p. (case p of (t, i) \<Rightarrow> item position [t, i, k, s] = None)
                   \<and> \<not> (case p of (t, i) \<Rightarrow> below_threshold threshold (item confidence [t, i, k]))) ?ps)"
    by (rule length_filter_disj)
  also have "length (filter (\<lambda>(t, i). below_threshold threshold (item confidence [t, i, k])) ?ps)
      = below_of_keypoint threshold confidence k"
    using assms by (simp add: below_of_keypoint_def)
  also have "(\<lambda>p. (case p of (t, i) \<Rightarrow> item position [t, i, k, s] = None)
                   \<and> \<not> (case p of (t, i) \<Rightarrow> below_threshold threshold (item confidence [t, i, k])))
      = (\<lambda>(t, i). item position [t, i, k, s] = None
                                 \<and> \<not> below_threshold threshold (item confidence [t, i, k]))"
    by auto
  finally show ?thesis .
qed

lemma track_below_keypoint: "below_of_keypoint (6 / 10) track_confidence 0 = 2"
  by (simp add: below_of_keypoint_def track_confidence_def below_threshold_def upt3)

text \<open>
  Claim C6. For a position array of shape (T, I, K, S), a confidence array of shape
  (T, I, K) and a keypoint, the confidence filter puts the missing-value marker at
  exactly the (time, individual, keypoint) triples whose confidence is below the
  threshold, in every space component, and leaves every other value as it was. So the
  markers of the keypoint after filtering number its triples below the threshold, plus
  the markers that were there before at its other triples; when the keypoint had no
  marker before filtering (as the tracker's output in the sample file) the count is
  exactly the number of its triples below the threshold, 3213 markers for 3213 such
  triples, and the same holds of the series of each individual.
\<close>

theorem filter_by_confidence_counts:
  assumes "shape position = [T, I, K, S]" "shape confidence = [T, I, K]" "k < K"
  shows "(\<forall>t<T. \<forall>i<I. item (filter_by_confidence threshold position confidence) [t, i, k, s] =
             (if below_threshold threshold (item confidence [t, i, k]) then None
              else item position [t, i, k, s]))
         \<and> markers_of_keypoint (filter_by_confidence threshold position confidence) k s =
             below_of_keypoint threshold confidence k
             + length (filter (\<lambda>(t, i). item position [t, i, k, s] = None
                                 \<and> \<not> below_threshold threshold (item confidence [t, i, k]))
                         (List.product [0..<T] [0..<I]))
         \<and> ((\<forall>t<T. \<forall>i<I. item position [t, i, k, s] \<noteq> None) \<longrightarrow>
              markers_of_keypoint (filter_by_confidence threshold position confidence) k s =
                below_of_keypoint threshold confidence k)
         \<and> (\<forall>i<I. (\<forall>t<T. item position [t, i, k, s] \<noteq> None) \<longrightarrow>
              count_nans (time_column (filter_by_confidence threshold position confidence) i k s) =
                count_below threshold confidence i k)"
proof -
  have a: "\<forall>t<T. \<forall>i<I. item (filter_by_confidence threshold position confidence) [t, i, k, s] =
             (if below_threshold threshold (item confidence [t, i, k]) then None
              else item position [t, i, k, s])"
    using assms by (simp add: item_filter_by_confidence)
  have b: "markers_of_keypoint (filter_by_confidence threshold position confidence) k s =
             below_of_keypoint threshold confidence k
             + length (filter (\<lambda>(t, i). item position [t, i, k, s] = None
                                 \<and> \<not> below_threshold threshold (item confidence [t, i, k]))
                         (List.product [0..<T] [0..<I]))"
    using assms by (rule markers_of_keypoint_filtered)
  have c: "filter (\<lambda>(t, i). item position [t, i, k, s] = None
                                 \<and> \<not> below_threshold threshold (item confidence [t, i, k]))
                         (List.product [0..<T] [0..<I]) = []"
    if "\<forall>t<T. \<forall>i<I. item position [t, i, k, s] \<noteq> None"
    using that by (auto simp add: filter_empty_conv)
  have d: "count_nans (time_column (filter_by_confidence threshold position confidence) i k s) =
                count_below threshold confidence i k"
    if "i < I" "\<forall>t<T. item position [t, i, k, s] \<noteq> None" for i
  proof -
    have "filter (\<lambda>t. item position [t, i, k, s] = None
                 \<and> \<not> below_threshold threshold (item confidence [t, i, k])) [0..<T] = []"
      using that(2) by (simp add: filter_empty_conv)
    then show ?thesis
      using count_nans_filtered [OF assms(1,2) that(1) assms(3), of threshold s] by simp
  qed
  show ?thesis using a b c d by simp
qed

theorem filter_by_confidence_counts_witness:
  "markers_of_keypoint (filter_by_confidence (6 / 10) track_position track_confidence) 0 0 = 2
   \<and> count_nans (time_column (filter_by_confidence (6 / 10) track_position track_confidence) 0 0 0) = 2
   \<and> item (filter_by_confidence (6 / 10) track_position track_confidence) [1, 0, 0, 0] = None
   \<and> item (filter_by_confidence (6 / 10) track_position track_confidence) [0, 0, 0, 0] = Some 1"
proof -
  have sh: "shape track_position = [3, 1, 1, 2]" "shape track_confidence = [3, 1, 1]"
    by (simp_all add: track_position_def track_confidence_def)
  have full: "\<forall>t<3. \<forall>i<1. item track_position [t, i, 0, 0] \<noteq> None"
    by (simp add: track_position_def)
  have it: "item track_confidence [Suc 0, 0, 0] = Some (1 / 10)"
       "item track_confidence [0, 0, 0] = Some (9 / 10)"
       "item track_position [0, 0, 0, 0] = Some 1"
    by (simp_all add: track_confidence_def track_position_def)
  show ?thesis
    using filter_by_confidence_counts [OF sh, of 0 "6 / 10" 0] full track_below track_below_keypoint
    by (simp add: it below_threshold_def)
qed

section \<open>Interpolation over time\<close>

text \<open>
  The list \<open>interior_gaps False 0 xs\<close> holds exactly the lengths of the runs of
  markers of \<open>xs\<close> that have a present value immediately before and after.
\<close>

lemma interior_gaps_replicate:
  "interior_gaps seen n (replicate m None @ ys) = interior_gaps seen (n + m) ys"
  by (induction m arbitrary: n) simp_all

lemma interior_gaps_complete:
  "Suc m \<in> set (interior_gaps seen n (pre @ Some l # replicate (Suc m) None @ Some r # post))"
proof (induction pre arbitrary: seen n)
  case Nil
  have "interior_gaps True 0 (replicate (Suc m) None @ Some r # post)
          = interior_gaps True (0 + Suc m) (Some r # post)"
    by (rule interior_gaps_replicate)
  then show ?case by simp
next
  case (Cons x pre)
  show ?case
  proof (cases x)
    case None
    then show ?thesis using Cons.IH [of seen "Suc n"] by simp
  next
    case (Some v)
    then show ?thesis using Cons.IH [of True 0] by simp
  qed
qed

lemma interior_gaps_sound:
  "g \<in> set (interior_gaps seen n xs) \<Longrightarrow>
     (seen \<and> n \<le> g \<and> 0 < g \<and> (\<exists>r post. xs = replicate (g - n) None @ Some r # post))
     \<or> (0 < g \<and> (\<exists>pre l r post. xs = pre @ Some l # replicate g None @ Some r # post))"
proof (induction seen n xs rule: interior_gaps.induct)
  case (1 seen n)
  then show ?case by simp
next
  case (2 seen n xs)
  from 2 have "g \<in> set (interior_gaps seen (Suc n) xs)" by simp
  from "2.IH" [OF this] show ?case
  proof
    assume a: "seen \<and> Suc n \<le> g \<and> 0 < g \<and> (\<exists>r post. xs = replicate (g - Suc n) None @ Some r # post)"
    then obtain r post where xs: "xs = replicate (g - Suc n) None @ Some r # post" by blast
    from a have "g - n = Suc (g - Suc n)" by arith
    then have "None # xs = replicate (g - n) None @ Some r # post" using xs by simp
    then show ?thesis using a by auto
  next
    assume b: "0 < g \<and> (\<exists>pre l r post. xs = pre @ Some l # replicate g None @ Some r # post)"
    then obtain pre l r post where "xs = pre @ Some l # replicate g None @ Some r # post" by blast
    then have "None # xs = (None # pre) @ Some l # replicate g None @ Some r # post" by simp
    then show ?thesis using b by blast
  qed
next
  case (3 seen n r xs)
  show ?case
  proof (cases "g \<in> set (interior_gaps True 0 xs)")
    case True
    from "3.IH" [OF this] show ?thesis
    proof
      assume a: "True \<and> 0 \<le> g \<and> 0 < g \<and> (\<exists>r post. xs = replicate (g - 0) None @ Some r # post)"
      then obtain r' post where "xs = replicate g None @ Some r' # post" by auto
      then have "Some r # xs = [] @ Some r # replicate g None @ Some r' # post" by simp
      then show ?thesis using a by blast
    next
      assume b: "0 < g \<and> (\<exists>pre l r post. xs = pre @ Some l # replicate g None @ Some r # post)"
      then obtain pre l r' post where "xs = pre @ Some l # replicate g None @ Some r' # post" by blast
      then have "Some r # xs = (Some r # pre) @ Some l # replicate g None @ Some r' # post" by simp
      then show ?thesis using b by blast
    qed
  next
    case False
    with 3 have "seen \<and> 0 < n \<and> g = n" by (auto split: if_splits)
    then show ?thesis by simp
  qed
qed

lemma interior_gaps_iff:
  "g \<in> set (interior_gaps False 0 xs) \<longleftrightarrow>
     0 < g \<and> (\<exists>pre l r post. xs = pre @ Some l # replicate g None @ Some r # post)"
proof
  assume "g \<in> set (interior_gaps False 0 xs)"
  from interior_gaps_sound [OF this] show "0 < g \<and> (\<exists>pre l r post. xs = pre @ Some l # replicate g None @ Some r # post)"
    by simp
next
  assume a: "0 < g \<and> (\<exists>pre l r post. xs = pre @ Some l # replicate g None @ Some r # post)"
  then obtain m where "g = Suc m" by (cases g) auto
  with a show "g \<in> set (interior_gaps False 0 xs)"
    using interior_gaps_complete by blast
qed

lemma length_fill_gap: "length (fill_gap pol mg prev r n) = n"
  by (cases prev) simp_all

lemma length_interpolate_run:
  "length (interpolate_run pol mg prev n xs) = n + length xs"
  by (induction pol mg prev n xs rule: interpolate_run.induct) (simp_all add: length_fill_gap)

lemma count_nans_replicate: "count_nans (replicate n None) = n"
  by (simp add: count_nans_def)

lemma count_nans_append: "count_nans (xs @ ys) = count_nans xs + count_nans ys"
  by (simp add: count_nans_def)

lemma count_nans_Cons:
  "count_nans (None # xs) = Suc (count_nans xs)" "count_nans (Some v # xs) = count_nans xs"
  by (simp_all add: count_nans_def)

lemma count_nans_fill_gap:
  "count_nans (fill_gap pol mg prev r n) = (if prev \<noteq> None \<and> within_limit mg n then 0 else n)"
  by (cases prev) (simp_all add: count_nans_def filter_map o_def)

lemma interpolate_run_count:
  "count_nans (interpolate_run pol mg prev n xs)
     + sum_list (filter (within_limit mg) (interior_gaps (prev \<noteq> None) n xs))
   = n + count_nans xs"
proof (induction pol mg prev n xs rule: interpolate_run.induct)
  case (1 pol mg prev n)
  then show ?case by (simp add: count_nans_def)
next
  case (2 pol mg prev n xs)
  then show ?case by (simp add: count_nans_Cons)
next
  case (3 pol mg prev n r xs)
  then show ?case
    by (simp add: count_nans_append count_nans_Cons count_nans_fill_gap)
qed

lemma interpolate_series_count:
  "count_nans (interpolate_series pol mg xs)
     + sum_list (filter (within_limit mg) (interior_gaps False 0 xs)) = count_nans xs"
  using interpolate_run_count [of pol mg None 0 xs] by (simp add: interpolate_series_def)

lemma interior_gaps_positive: "g \<in> set (interior_gaps seen n xs) \<Longrightarrow> 0 < g"
  by (induction seen n xs rule: interior_gaps.induct) (auto split: if_splits)

lemma shape_interpolate: "shape (interpolate_over_time pol mg position) = shape position"
  by (simp add: interpolate_over_time_def)

lemma time_column_interpolate:
  "time_column (interpolate_over_time pol mg position) i k s =
     interpolate_series pol mg (time_column position i k s)"
proof -
  let ?xs = "interpolate_series pol mg (time_column position i k s)"
  have len: "length ?xs = n_time position"
    by (simp add: interpolate_series_def length_interpolate_run time_column_def)
  have "time_column (interpolate_over_time pol mg position) i k s
          = map (\<lambda>t. ?xs ! t) [0..<n_time position]"
    by (simp add: time_column_def n_time_def interpolate_over_time_def)
  also have "\<dots> = ?xs"
    using len map_nth [of ?xs] by simp
  finally show ?thesis .
qed

lemma columns_interpolate: "columns (interpolate_over_time pol mg position) = columns position"
  by (simp add: columns_def shape_interpolate)

lemma sum_over_columns:
  fixes f h :: "'a \<Rightarrow> nat"
  assumes "\<And>c. f c + sum_list (filter W (g c)) = h c"
  shows "sum_list (map f cs) + sum_list (filter W (concat (map g cs))) = sum_list (map h cs)"
proof (induction cs)
  case Nil
  then show ?case by simp
next
  case (Cons c cs)
  have "sum_list (map f (c # cs)) + sum_list (filter W (concat (map g (c # cs))))
        = (f c + sum_list (filter W (g c))) + (sum_list (map f cs) + sum_list (filter W (concat (map g cs))))"
    by simp
  also have "\<dots> = h c + sum_list (map h cs)"
    using assms Cons.IH by simp
  finally show ?case by simp
qed

lemma count_missing_interpolate:
  "count_missing (interpolate_over_time pol mg position)
     + sum_list (filter (within_limit mg) (gaps_of position)) = count_missing position"
proof -
  have "sum_list (map (\<lambda>(i, k, s). count_nans (interpolate_series pol mg (time_column position i k s)))
                   (columns position))
        + sum_list (filter (within_limit mg)
            (concat (map (\<lambda>(i, k, s). interior_gaps False 0 (time_column position i k s)) (columns position))))
        = sum_list (map (\<lambda>(i, k, s). count_nans (time_column position i k s)) (columns position))"
    by (rule sum_over_columns) (auto simp add: interpolate_series_count)
  then show ?thesis
    by (simp add: count_missing_def gaps_of_def columns_interpolate time_column_interpolate)
qed

lemma upt4: "[0..<4] = [0, 1, 2, 3]"
  by (simp add: upt_rec)

lemma gap_column: "time_column gap_position 0 0 0 = [Some 1, None, None, Some 4]"
  by (simp add: time_column_def n_time_def gap_position_def upt4)

lemma gap_columns: "columns gap_position = [(0, 0, 0)]"
  by (simp add: columns_def gap_position_def)

lemma gap_gaps: "gaps_of gap_position = [2]"
  by (simp add: gaps_of_def gap_columns gap_column)

lemma gap_missing: "count_missing gap_position = 2"
  by (simp add: count_missing_def gap_columns gap_column count_nans_def)

lemma interp_values:
  "interpolate_series linear None [Some 1, None, None, Some 4] = [Some 1, Some 2, Some 3, Some 4]"
  by (simp add: interpolate_series_def within_limit_def linear_def upt_rec)

text \<open>
  Claim C7, as stated, fails: the series 1, NaN, NaN, 4 has a gap of two frames between
  two present values; interpolated with a limit of one frame, the gap is longer than the
  limit and is left unfilled, and the number of missing values does not decrease.
\<close>

theorem interpolation_strict_counterexample:
  "gaps_of gap_position = [2]
   \<and> \<not> count_missing (interpolate_over_time linear (Some 1) gap_position)
         < count_missing gap_position"
  using count_missing_interpolate [of linear "Some 1" gap_position]
  by (simp add: gap_gaps gap_missing within_limit_def)

text \<open>
  Claim C7, amended. For every position array, policy and gap limit, interpolation over
  time never increases the number of missing values, and the number decreases strictly
  whenever some gap between two present values is no longer than the configured limit;
  with no limit configured, whenever there is any gap between two present values.
\<close>

theorem interpolation_reduces_missing:
  "count_missing (interpolate_over_time pol max_gap position) \<le> count_missing position
   \<and> ((\<exists>g\<in>set (gaps_of position). within_limit max_gap g) \<longrightarrow>
        count_missing (interpolate_over_time pol max_gap position) < count_missing position)
   \<and> (gaps_of position \<noteq> [] \<longrightarrow>
        count_missing (interpolate_over_time pol None position) < count_missing position)"
proof -
  have gen: "count_missing (interpolate_over_time pol mg position) < count_missing position"
    if "g \<in> set (gaps_of position)" "within_limit mg g" for mg g
  proof -
    have "0 < g"
      using that(1) by (auto simp add: gaps_of_def dest: interior_gaps_positive)
    moreover have "g \<in> set (filter (within_limit mg) (gaps_of position))"
      using that by simp
    then have "g \<le> sum_list (filter (within_limit mg) (gaps_of position))"
      by (auto intro: member_le_sum_list)
    ultimately show ?thesis
      using count_missing_interpolate [of pol mg position] by linarith
  qed
  have le: "count_missing (interpolate_over_time pol max_gap position) \<le> count_missing position"
    using count_missing_interpolate [of pol max_gap position] by linarith
  have none: "gaps_of position \<noteq> [] \<Longrightarrow>
        count_missing (interpolate_over_time pol None position) < count_missing position"
  proof -
    assume "gaps_of position \<noteq> []"
    then obtain g where "g \<in> set (gaps_of position)" by (cases "gaps_of position") auto
    then show ?thesis using gen [of g None] by (simp add: within_limit_def)
  qed
  show ?thesis using le gen none by blast
qed

theorem interpolation_reduces_missing_witness:
  "count_missing (interpolate_over_time linear (Some 2) gap_position) < count_missing gap_position
   \<and> count_missing (interpolate_over_time linear None gap_position) < count_missing gap_position"
proof -
  have a: "\<exists>g\<in>set (gaps_of gap_position). within_limit (Some 2) g"
    by (simp add: gap_gaps within_limit_def)
  have b: "gaps_of gap_position \<noteq> []"
    by (simp add: gap_gaps)
  show ?thesis
    using interpolation_reduces_missing [of linear "Some 2" gap_position] a b by blast
qed

section \<open>The operation log\<close>


lemma positional_one: "positional_entries [a] = [(''arg_1'', a)]"
  by (simp add: positional_entries_def)

lemma log_entry_one:
  "log_entry operation [a] [(kw, v)] =
     dict_set (dict_set [(''operation'', PStr operation)] ''arg_1'' a) kw v"
  by (simp add: log_entry_def positional_one)



lemma fake_entry:
  "log_entry ''fake_func'' [PStr ''test1''] [(''kwarg'', PStr ''test2'')] =
     [(''operation'', PStr ''fake_func''), (''arg_1'', PStr ''test1''), (''kwarg'', PStr ''test2'')]"
  by (simp add: log_entry_one)





end
